theory Spec2Isabelle
  imports Complex_Main
begin

section \<open>The module \<^verbatim>\<open>cubedash/_model.py\<close>: footprints, regions and cached queries\<close>

text \<open>
  The module is a thin layer over five collaborators: the summary store (\<open>STORE\<close>), the
  flask cache, shapely geometries, pyproj and dateutil. Each function of the module is
  embedded as a function on an explicit world (clock, store state, override file, log,
  trace of store calls, one cache table per memoised function), returning either a
  raised exception (\<open>Inl\<close>) or a value (\<open>Inr\<close>) together with the new world.
  For a memoised function \<open>f\<close>, \<open>f_uncached\<close> is the body of its \<^verbatim>\<open>def\<close> and
  \<open>f\<close> is that body under the decorator; a body calls the other functions as the
  source does, through their decorators. A function whose name starts with an
  underscore in the source has the prefix \<open>priv\<close> here.

  Reading the override file and parsing its text return the exception they raise, so
  that what the module catches and what it lets escape are both branches of the model.
  Left out: the info and debug log lines (sizes and elapsed times, which no value
  depends on), failures of the store, of pyproj and of shapely, and the rounding of
  coordinates.
\<close>

subsection \<open>Geometries\<close>

text \<open>
  A shapely geometry is represented by the set of points of the plane it covers.
  \<open>intersects\<close> and \<open>intersection\<close> are shapely's predicates on those point sets;
  the truth value of a geometry is \<open>not is_empty\<close>. \<open>boundary\<close> and the
  coordinate transform belong to the collaborators (see \<open>env\<close>).
\<close>

type_synonym point = "real \<times> real"
type_synonym geometry = "point set"

definition is_empty_geom :: "geometry \<Rightarrow> bool" where
  "is_empty_geom g \<longleftrightarrow> g = {}"

definition intersects :: "geometry \<Rightarrow> geometry \<Rightarrow> bool" where
  "intersects a b \<longleftrightarrow> a \<inter> b \<noteq> {}"

definition intersection :: "geometry \<Rightarrow> geometry \<Rightarrow> geometry" where
  "intersection a b = a \<inter> b"

subsection \<open>Values\<close>

text \<open>Python dicts and lists that are returned as GeoJSON. A dict keeps its keys in order.\<close>

datatype json =
    JNull
  | JInt int
  | JStr string
  | JList "json list"
  | JObj "(string \<times> json) list"
  | JGeometry geometry

text \<open>An optional integer inside a list: \<open>None\<close> is JSON null.\<close>

definition json_of_opt :: "int option \<Rightarrow> json" where
  "json_of_opt v = (case v of None \<Rightarrow> JNull | Some i \<Rightarrow> JInt i)"

text \<open>Reading a key of a dict (used to state properties of results only).\<close>

definition json_field :: "string \<Rightarrow> json \<Rightarrow> json option" where
  "json_field k j = (case j of JObj kvs \<Rightarrow> map_of kvs k | _ \<Rightarrow> None)"

text \<open>
  The exceptions the module raises, or lets escape. \<open>ValueError\<close> stands for the class
  with its subclasses, which is what an \<^verbatim>\<open>except ValueError\<close> clause catches.
\<close>

datatype exn =
    RuntimeError "string list"
  | ValueError
  | KeyError string
  | TypeError
  | OverflowError
  | OSError

text \<open>
  \<open>TimePeriodOverview\<close>: the fields the module reads. \<open>region_dataset_counts\<close> is a
  \<open>Counter\<close>, kept as the list of its items in iteration order.
\<close>

record time_period_overview =
  dataset_count :: int
  footprint_geometry :: "geometry option"
  footprint_crs :: string
  footprint_count :: int
  region_dataset_counts :: "(string \<times> int) list"

text \<open>\<open>DatasetType\<close>: only its \<open>name\<close> is read here.\<close>

record dataset_type =
  dt_name :: string

text \<open>
  \<open>RegionInfo\<close>: the attributes the module reads. \<open>geographic_extent\<close> is tested for
  truth before it is called, so it is optional.
\<close>

record region_info =
  name :: string
  unit_label :: string
  region_label :: "string \<Rightarrow> string"
  geographic_extent :: "(string \<Rightarrow> geometry) option"

subsection \<open>The world\<close>

datatype store_call =
    Get string "int option" "int option" "int option"
  | GetOrUpdate string "int option" "int option" "int option"
  | GetDatasetFootprints string "int option" "int option" "int option" int
  | GetLastUpdated
  | ProductsGetAll
  | ListCompleteProducts
  | ProductsGetByName string

datatype log_event = Warn string string

type_synonym period_key = "string \<times> int option \<times> int option \<times> int option"

text \<open>
  A cache table maps the arguments of a call to the time the entry expires and the
  stored value. \<open>generated_txt\<close> is the override file
  \<^verbatim>\<open>product-summaries/generated.txt\<close>: \<open>None\<close> when the file does not exist,
  otherwise what \<^verbatim>\<open>read_text\<close> does, the text of the file or the exception it raises.
\<close>

record ('db, 'ts) world =
  now :: nat
  db :: 'db
  generated_txt :: "(exn + string) option"
  log :: "log_event list"
  store_calls :: "store_call list"
  summary_cache :: "period_key \<rightharpoonup> nat \<times> time_period_overview option"
  datasets_geojson_cache :: "period_key \<times> int \<rightharpoonup> nat \<times> json"
  last_updated_cache :: "unit \<rightharpoonup> nat \<times> 'ts"
  products_cache :: "unit \<rightharpoonup> nat \<times> (dataset_type \<times> time_period_overview option) list"
  footprint_geojson_cache :: "period_key \<rightharpoonup> nat \<times> json option"
  regions_geojson_cache :: "period_key \<rightharpoonup> nat \<times> json option"

text \<open>
  The collaborators, as functions: the methods of \<open>STORE\<close> on the store's state,
  \<open>RegionInfo.for_product\<close>, \<open>dateutil.parser.parse\<close> (the time it reads, or the
  exception it raises: \<open>ValueError\<close> for a text that is no date, \<open>OverflowError\<close>
  for a number too large for a date), the pyproj transform from a named coordinate
  system to \<open>epsg:4326\<close>, and shapely's \<open>boundary\<close>.
\<close>

record ('db, 'ts) env =
  store_get :: "'db \<Rightarrow> string \<Rightarrow> int option \<Rightarrow> int option \<Rightarrow> int option
                  \<Rightarrow> time_period_overview option"
  store_get_or_update :: "'db \<Rightarrow> string \<Rightarrow> int option \<Rightarrow> int option \<Rightarrow> int option
                  \<Rightarrow> time_period_overview option \<times> 'db"
  store_get_dataset_footprints :: "'db \<Rightarrow> string \<Rightarrow> int option \<Rightarrow> int option \<Rightarrow> int option
                  \<Rightarrow> int \<Rightarrow> json"
  store_get_last_updated :: "'db \<Rightarrow> 'ts"
  store_list_complete_products :: "'db \<Rightarrow> string list"
  products_get_all :: "'db \<Rightarrow> dataset_type list"
  products_get_by_name :: "'db \<Rightarrow> string \<Rightarrow> dataset_type option"
  for_product :: "dataset_type \<Rightarrow> region_info option"
  dateutil_parse :: "string \<Rightarrow> exn + 'ts"
  to_epsg4326 :: "string \<Rightarrow> geometry \<Rightarrow> geometry"
  boundary :: "geometry \<Rightarrow> geometry"

type_synonym ('db, 'ts, 'a) action =
  "('db, 'ts) world \<Rightarrow> (exn + 'a) \<times> ('db, 'ts) world"

definition called :: "store_call \<Rightarrow> ('db, 'ts) world \<Rightarrow> ('db, 'ts) world" where
  "called c w = w\<lparr>store_calls := store_calls w @ [c]\<rparr>"

subsection \<open>The memoising decorator\<close>

text \<open>
  Modelled from the spec: \<^verbatim>\<open>cache.memoize(timeout)\<close> of the flask caching library, which is not part
  of the module. On a hit within the time to live the stored value is returned and the
  function is not run; on a miss or after expiry the function is run and its value,
  absent or not, is stored with the time it expires. A raised exception is not a value
  and stores nothing.
\<close>

definition cache_get :: "nat \<Rightarrow> ('k \<rightharpoonup> nat \<times> 'v) \<Rightarrow> 'k \<Rightarrow> 'v option" where
  "cache_get t c k =
     (case c k of
        None \<Rightarrow> None
      | Some (expires, v) \<Rightarrow> if t < expires then Some v else None)"

definition memoize ::
  "nat \<Rightarrow> (('db, 'ts) world \<Rightarrow> ('k \<rightharpoonup> nat \<times> 'v))
       \<Rightarrow> ((('k \<rightharpoonup> nat \<times> 'v) \<Rightarrow> ('k \<rightharpoonup> nat \<times> 'v)) \<Rightarrow> ('db, 'ts) world \<Rightarrow> ('db, 'ts) world)
       \<Rightarrow> 'k \<Rightarrow> ('db, 'ts, 'v) action \<Rightarrow> ('db, 'ts, 'v) action" where
  "memoize timeout table update key f w =
     (case cache_get (now w) (table w) key of
        Some v \<Rightarrow> (Inr v, w)
      | None \<Rightarrow>
          (case f w of
             (Inl e, w') \<Rightarrow> (Inl e, w')
           | (Inr v, w') \<Rightarrow> (Inr v, update (\<lambda>c. c(key \<mapsto> (now w' + timeout, v))) w')))"

subsection \<open>The cached queries\<close>

definition get_summary_uncached ::
  "('db, 'ts) env \<Rightarrow> string \<Rightarrow> int option \<Rightarrow> int option \<Rightarrow> int option
     \<Rightarrow> ('db, 'ts, time_period_overview option) action" where
  "get_summary_uncached E product_name year month day w =
     (if day \<noteq> None then
        (case store_get_or_update E (db w) product_name year month day of
           (r, db') \<Rightarrow> (Inr r, called (GetOrUpdate product_name year month day) (w\<lparr>db := db'\<rparr>)))
      else
        (Inr (store_get E (db w) product_name year month day),
         called (Get product_name year month day) w))"

definition get_summary ::
  "('db, 'ts) env \<Rightarrow> string \<Rightarrow> int option \<Rightarrow> int option \<Rightarrow> int option
     \<Rightarrow> ('db, 'ts, time_period_overview option) action" where
  "get_summary E product_name year month day =
     memoize 60 summary_cache summary_cache_update (product_name, year, month, day)
       (get_summary_uncached E product_name year month day)"

definition get_datasets_geojson_uncached ::
  "('db, 'ts) env \<Rightarrow> string \<Rightarrow> int option \<Rightarrow> int option \<Rightarrow> int option \<Rightarrow> int
     \<Rightarrow> ('db, 'ts, json) action" where
  "get_datasets_geojson_uncached E product_name year month day limit w =
     (Inr (store_get_dataset_footprints E (db w) product_name year month day limit),
      called (GetDatasetFootprints product_name year month day limit) w)"

definition get_datasets_geojson ::
  "('db, 'ts) env \<Rightarrow> string \<Rightarrow> int option \<Rightarrow> int option \<Rightarrow> int option \<Rightarrow> int
     \<Rightarrow> ('db, 'ts, json) action" where
  "get_datasets_geojson E product_name year month day limit =
     memoize 60 datasets_geojson_cache datasets_geojson_cache_update
       ((product_name, year, month, day), limit)
       (get_datasets_geojson_uncached E product_name year month day limit)"

definition store_last_updated :: "('db, 'ts) env \<Rightarrow> ('db, 'ts, 'ts) action" where
  "store_last_updated E w = (Inr (store_get_last_updated E (db w)), called GetLastUpdated w)"

text \<open>
  \<^verbatim>\<open>read_text\<close> stands before the \<^verbatim>\<open>try\<close>: what it raises escapes. Inside the
  \<^verbatim>\<open>try\<close>, only \<open>ValueError\<close> is caught; any other exception of the parser escapes.
\<close>

definition get_last_updated_uncached :: "('db, 'ts) env \<Rightarrow> ('db, 'ts, 'ts) action" where
  "get_last_updated_uncached E w =
     (case generated_txt w of
        Some (Inl e) \<Rightarrow> (Inl e, w)
      | Some (Inr date_text) \<Rightarrow>
          (case dateutil_parse E date_text of
             Inr t \<Rightarrow> (Inr t, w)
           | Inl e \<Rightarrow>
               if e = ValueError then
                 store_last_updated E
                   (w\<lparr>log := log w @ [Warn ''invalid.summary.generated.txt'' date_text]\<rparr>)
               else (Inl e, w))
      | None \<Rightarrow> store_last_updated E w)"

definition get_last_updated :: "('db, 'ts) env \<Rightarrow> ('db, 'ts, 'ts) action" where
  "get_last_updated E =
     memoize 120 last_updated_cache last_updated_cache_update () (get_last_updated_uncached E)"

text \<open>
  The comprehension of \<open>get_products_with_summaries\<close>: for each complete product, the
  catalogue entry (\<open>KeyError\<close> when the name is unknown), then its cached summary.
\<close>

fun products_with_summaries ::
  "('db, 'ts) env \<Rightarrow> (string \<rightharpoonup> dataset_type) \<Rightarrow> string list
     \<Rightarrow> ('db, 'ts, (dataset_type \<times> time_period_overview option) list) action" where
  "products_with_summaries E index_products [] w = (Inr [], w)"
| "products_with_summaries E index_products (product_name # rest) w =
     (case index_products product_name of
        None \<Rightarrow> (Inl (KeyError product_name), w)
      | Some p \<Rightarrow>
          (case get_summary E product_name None None None w of
             (Inl e, w1) \<Rightarrow> (Inl e, w1)
           | (Inr s, w1) \<Rightarrow>
               (case products_with_summaries E index_products rest w1 of
                  (Inl e, w2) \<Rightarrow> (Inl e, w2)
                | (Inr ps, w2) \<Rightarrow> (Inr ((p, s) # ps), w2))))"

definition get_products_with_summaries_uncached ::
  "('db, 'ts) env \<Rightarrow> ('db, 'ts, (dataset_type \<times> time_period_overview option) list) action" where
  "get_products_with_summaries_uncached E w =
     (let index_products = map_of (rev (map (\<lambda>p. (dt_name p, p)) (products_get_all E (db w))));
          w1 = called ProductsGetAll w;
          names = store_list_complete_products E (db w1);
          w2 = called ListCompleteProducts w1
      in case products_with_summaries E index_products names w2 of
           (Inl e, w3) \<Rightarrow> (Inl e, w3)
         | (Inr products, w3) \<Rightarrow>
             if products = [] then
               (Inl (RuntimeError
                  [''No product reports. Run `python -m cubedash.generate --all` to generate some.'']),
                w3)
             else (Inr products, w3))"

definition get_products_with_summaries ::
  "('db, 'ts) env \<Rightarrow> ('db, 'ts, (dataset_type \<times> time_period_overview option) list) action" where
  "get_products_with_summaries E =
     memoize 120 products_cache products_cache_update ()
       (get_products_with_summaries_uncached E)"

subsection \<open>The footprint\<close>

text \<open>
  \<^verbatim>\<open>_get_footprint\<close>. A summary object is true; a count is false when it is zero; a
  geometry is false when it is absent or empty.
\<close>

definition priv_get_footprint ::
  "('db, 'ts) env \<Rightarrow> time_period_overview option \<Rightarrow> geometry option" where
  "priv_get_footprint E period =
     (case period of
        None \<Rightarrow> None
      | Some p \<Rightarrow>
          if dataset_count p = 0 then None
          else
            (case footprint_geometry p of
               None \<Rightarrow> None
             | Some g \<Rightarrow>
                 if is_empty_geom g then None
                 else Some (to_epsg4326 E (footprint_crs p) g)))"

definition get_footprint_geojson_uncached ::
  "('db, 'ts) env \<Rightarrow> string \<Rightarrow> int option \<Rightarrow> int option \<Rightarrow> int option
     \<Rightarrow> ('db, 'ts, json option) action" where
  "get_footprint_geojson_uncached E product_name year month day w =
     (case get_summary E product_name year month day w of
        (Inl e, w1) \<Rightarrow> (Inl e, w1)
      | (Inr None, w1) \<Rightarrow> (Inr None, w1)
      | (Inr (Some period), w1) \<Rightarrow>
          (case priv_get_footprint E (Some period) of
             None \<Rightarrow> (Inr None, w1)
           | Some footprint \<Rightarrow>
               if is_empty_geom footprint then (Inr None, w1)
               else
                 (Inr (Some (JObj
                    [(''type'', JStr ''Feature''),
                     (''geometry'', JGeometry footprint),
                     (''properties'', JObj
                        [(''dataset_count'', JInt (footprint_count period)),
                         (''product_name'', JStr product_name),
                         (''time_spec'',
                            JList [json_of_opt year, json_of_opt month, json_of_opt day])])])),
                  w1)))"

definition get_footprint_geojson ::
  "('db, 'ts) env \<Rightarrow> string \<Rightarrow> int option \<Rightarrow> int option \<Rightarrow> int option
     \<Rightarrow> ('db, 'ts, json option) action" where
  "get_footprint_geojson E product_name year month day =
     memoize 60 footprint_geojson_cache footprint_geojson_cache_update
       (product_name, year, month, day)
       (get_footprint_geojson_uncached E product_name year month day)"

subsection \<open>The regions\<close>

text \<open>
  \<open>region_geometry_cut\<close>, the closure of \<^verbatim>\<open>_region_geometry_function\<close>, with the
  variables it captures as arguments. Calling an absent \<open>region_shape\<close> raises
  \<open>TypeError\<close>.
\<close>

definition region_geometry_cut ::
  "(string \<Rightarrow> geometry) option \<Rightarrow> geometry \<Rightarrow> geometry \<Rightarrow> string \<Rightarrow> exn + geometry" where
  "region_geometry_cut region_shape footprint footprint_boundary region_code =
     (case region_shape of
        None \<Rightarrow> Inl TypeError
      | Some shape \<Rightarrow>
          (let shapely_extent = shape region_code
           in if intersects footprint_boundary shapely_extent
              then Inr (intersection footprint shapely_extent)
              else Inr shapely_extent))"

definition priv_region_geometry_function ::
  "('db, 'ts) env \<Rightarrow> region_info \<Rightarrow> geometry option \<Rightarrow> (string \<Rightarrow> exn + geometry) option" where
  "priv_region_geometry_function E region_info footprint =
     (let region_shape = geographic_extent region_info
      in case footprint of
           None \<Rightarrow>
             (case region_shape of
                None \<Rightarrow> None
              | Some shape \<Rightarrow> Some (\<lambda>region_code. Inr (shape region_code)))
         | Some fp \<Rightarrow> Some (region_geometry_cut region_shape fp (boundary E fp)))"

text \<open>Python's \<open>min\<close> and \<open>max\<close> of an iterable: \<open>ValueError\<close> when it is empty.\<close>

definition py_min :: "int list \<Rightarrow> exn + int" where
  "py_min xs =
     (case xs of
        [] \<Rightarrow> Inl ValueError
      | x # rest \<Rightarrow> Inr (fold (\<lambda>y best. if y < best then y else best) rest x))"

definition py_max :: "int list \<Rightarrow> exn + int" where
  "py_max xs =
     (case xs of
        [] \<Rightarrow> Inl ValueError
      | x # rest \<Rightarrow> Inr (fold (\<lambda>y best. if y > best then y else best) rest x))"

text \<open>\<open>region_counts[region_code]\<close> on a \<open>Counter\<close>: a missing key counts zero.\<close>

definition counter_get :: "(string \<times> int) list \<Rightarrow> string \<Rightarrow> int" where
  "counter_get region_counts region_code =
     (case map_of region_counts region_code of None \<Rightarrow> 0 | Some n \<Rightarrow> n)"

text \<open>The list comprehension that builds the features, one region code after the other.\<close>

fun region_features ::
  "(string \<Rightarrow> exn + geometry) \<Rightarrow> region_info \<Rightarrow> (string \<times> int) list \<Rightarrow> string list
     \<Rightarrow> exn + json list" where
  "region_features region_geometry region_info region_counts [] = Inr []"
| "region_features region_geometry region_info region_counts (region_code # rest) =
     (case region_geometry region_code of
        Inl e \<Rightarrow> Inl e
      | Inr g \<Rightarrow>
          (case region_features region_geometry region_info region_counts rest of
             Inl e \<Rightarrow> Inl e
           | Inr fs \<Rightarrow>
               Inr (JObj
                 [(''type'', JStr ''Feature''),
                  (''geometry'', JGeometry g),
                  (''properties'', JObj
                     [(''region_code'', JStr region_code),
                      (''label'', JStr (region_label region_info region_code)),
                      (''count'', JInt (counter_get region_counts region_code))])] # fs)))"

definition priv_get_regions_geojson ::
  "('db, 'ts) env \<Rightarrow> (string \<times> int) list \<Rightarrow> geometry option \<Rightarrow> region_info
     \<Rightarrow> exn + json option" where
  "priv_get_regions_geojson E region_counts footprint region_info =
     (case priv_region_geometry_function E region_info footprint of
        None \<Rightarrow> Inr None
      | Some region_geometry \<Rightarrow>
          (case py_min (map snd region_counts) of
             Inl e \<Rightarrow> Inl e
           | Inr low \<Rightarrow>
               (case py_max (map snd region_counts) of
                  Inl e \<Rightarrow> Inl e
                | Inr high \<Rightarrow>
                    (case region_features region_geometry region_info region_counts
                            (map fst region_counts) of
                       Inl e \<Rightarrow> Inl e
                     | Inr features \<Rightarrow>
                         Inr (Some (JObj
                           [(''type'', JStr ''FeatureCollection''),
                            (''properties'', JObj
                               [(''region_type'', JStr (name region_info)),
                                (''region_unit_label'', JStr (unit_label region_info)),
                                (''min_count'', JInt low),
                                (''max_count'', JInt high)]),
                            (''features'', JList features)]))))))"

definition get_regions_geojson_uncached ::
  "('db, 'ts) env \<Rightarrow> string \<Rightarrow> int option \<Rightarrow> int option \<Rightarrow> int option
     \<Rightarrow> ('db, 'ts, json option) action" where
  "get_regions_geojson_uncached E product_name year month day w =
     (case get_summary E product_name year month day w of
        (Inl e, w1) \<Rightarrow> (Inl e, w1)
      | (Inr None, w1) \<Rightarrow> (Inr None, w1)
      | (Inr (Some period), w1) \<Rightarrow>
          (let w2 = called (ProductsGetByName product_name) w1
           in case products_get_by_name E (db w1) product_name of
                None \<Rightarrow>
                  (Inl (RuntimeError [''Unknown product despite having a summary?'', product_name]),
                   w2)
              | Some product \<Rightarrow>
                  if region_dataset_counts period = [] then (Inr None, w2)
                  else
                    (case for_product E product of
                       None \<Rightarrow> (Inr None, w2)
                     | Some region_info \<Rightarrow>
                         (priv_get_regions_geojson E (region_dataset_counts period)
                            (priv_get_footprint E (Some period)) region_info,
                          w2))))"

definition get_regions_geojson ::
  "('db, 'ts) env \<Rightarrow> string \<Rightarrow> int option \<Rightarrow> int option \<Rightarrow> int option
     \<Rightarrow> ('db, 'ts, json option) action" where
  "get_regions_geojson E product_name year month day =
     memoize 60 regions_geojson_cache regions_geojson_cache_update
       (product_name, year, month, day)
       (get_regions_geojson_uncached E product_name year month day)"

subsection \<open>The claims as the specification words them\<close>

text \<open>
  The reprojector as the specification describes it: absent for an absent summary, a
  zero count or a missing footprint geometry, the transformed footprint otherwise.
\<close>

definition spec_get_footprint ::
  "('db, 'ts) env \<Rightarrow> time_period_overview option \<Rightarrow> geometry option" where
  "spec_get_footprint E period =
     (case period of
        None \<Rightarrow> None
      | Some p \<Rightarrow>
          if dataset_count p = 0 then None
          else
            (case footprint_geometry p of
               None \<Rightarrow> None
             | Some g \<Rightarrow> Some (to_epsg4326 E (footprint_crs p) g)))"

text \<open>A computing call: the table holds no live entry for the key.\<close>

definition cache_miss :: "nat \<Rightarrow> ('k \<rightharpoonup> nat \<times> 'v) \<Rightarrow> 'k \<Rightarrow> bool" where
  "cache_miss t c k \<longleftrightarrow> cache_get t c k = None"

subsection \<open>A small catalogue to run the functions on\<close>

definition demo_footprint :: geometry where
  "demo_footprint = {(0, 0), (2, 2), (1, 1)}"

definition demo_boundary :: "geometry \<Rightarrow> geometry" where
  "demo_boundary g = g - {(1, 1)}"

definition demo_region_shape :: "string \<Rightarrow> geometry" where
  "demo_region_shape region_code =
     (if region_code = ''r1'' then {(1, 1)} else {(2, 2), (3, 3)})"

definition demo_region_info :: region_info where
  "demo_region_info =
     \<lparr>name = ''grid'', unit_label = ''tile'', region_label = (\<lambda>c. ''Tile '' @ c),
      geographic_extent = Some demo_region_shape\<rparr>"

definition demo_period :: time_period_overview where
  "demo_period =
     \<lparr>dataset_count = 3, footprint_geometry = Some demo_footprint,
      footprint_crs = ''EPSG:32755'', footprint_count = 2,
      region_dataset_counts = [(''r1'', 1), (''r2'', 2)]\<rparr>"

definition demo_product :: dataset_type where
  "demo_product = \<lparr>dt_name = ''demo_scene''\<rparr>"

definition demo_env :: "(nat, string) env" where
  "demo_env =
     \<lparr>store_get = (\<lambda>d p y m dy. if p = ''demo_scene'' then Some demo_period else None),
      store_get_or_update =
        (\<lambda>d p y m dy. (if p = ''demo_scene'' then Some demo_period else None, Suc d)),
      store_get_dataset_footprints =
        (\<lambda>d p y m dy limit. JObj [(''type'', JStr ''FeatureCollection''), (''features'', JList [])]),
      store_get_last_updated = (\<lambda>d. if d = 0 then ''2018-05-01'' else ''2018-05-02''),
      store_list_complete_products = (\<lambda>d. [''demo_scene'']),
      products_get_all = (\<lambda>d. [demo_product]),
      products_get_by_name = (\<lambda>d p. if p = ''demo_scene'' then Some demo_product else None),
      for_product = (\<lambda>p. Some demo_region_info),
      dateutil_parse =
        (\<lambda>s. if s = ''2018-06-01'' then Inr s
             else if s = ''99999999999999999999'' then Inl OverflowError
             else Inl ValueError),
      to_epsg4326 = (\<lambda>crs g. g),
      boundary = demo_boundary\<rparr>"

definition demo_world :: "(nat, string) world" where
  "demo_world =
     \<lparr>now = 100, db = 0, generated_txt = None, log = [], store_calls = [],
      summary_cache = Map.empty, datasets_geojson_cache = Map.empty,
      last_updated_cache = Map.empty, products_cache = Map.empty,
      footprint_geojson_cache = Map.empty, regions_geojson_cache = Map.empty\<rparr>"

text \<open>A summary whose footprint geometry is present but empty.\<close>

definition empty_footprint_period :: time_period_overview where
  "empty_footprint_period = demo_period\<lparr>footprint_geometry := Some {}\<rparr>"

text \<open>A summary without region counts, in a catalogue that no longer knows the product.\<close>

definition no_regions_period :: time_period_overview where
  "no_regions_period = demo_period\<lparr>region_dataset_counts := []\<rparr>"

definition orphan_env :: "(nat, string) env" where
  "orphan_env =
     demo_env\<lparr>store_get := (\<lambda>d p y m dy. Some no_regions_period),
              products_get_by_name := (\<lambda>d p. None)\<rparr>"

text \<open>The counts of the specification's example.\<close>

definition abc_counts :: "(string \<times> int) list" where
  "abc_counts = [(''A'', 2), (''B'', 5), (''C'', 5)]"

text \<open>The same summary in a catalogue that knows the product.\<close>

definition no_regions_env :: "(nat, string) env" where
  "no_regions_env = demo_env\<lparr>store_get := (\<lambda>d p y m dy. Some no_regions_period)\<rparr>"

text \<open>A product without a region catalogue.\<close>

definition no_catalog_env :: "(nat, string) env" where
  "no_catalog_env = demo_env\<lparr>for_product := (\<lambda>p. None)\<rparr>"

text \<open>
  A region catalogue without a geometry function, for a summary that has region counts
  and no datasets, hence no footprint; and the same catalogue for the demo summary,
  which has a footprint.
\<close>

definition shapeless_region_info :: region_info where
  "shapeless_region_info = demo_region_info\<lparr>geographic_extent := None\<rparr>"

definition no_datasets_period :: time_period_overview where
  "no_datasets_period = demo_period\<lparr>dataset_count := 0, footprint_geometry := None\<rparr>"

definition shapeless_env :: "(nat, string) env" where
  "shapeless_env =
     demo_env\<lparr>store_get := (\<lambda>d p y m dy. Some no_datasets_period),
              for_product := (\<lambda>p. Some shapeless_region_info)\<rparr>"

definition shapeless_footprint_env :: "(nat, string) env" where
  "shapeless_footprint_env = demo_env\<lparr>for_product := (\<lambda>p. Some shapeless_region_info)\<rparr>"

text \<open>A coordinate transform that loses every point.\<close>

definition collapsing_env :: "(nat, string) env" where
  "collapsing_env = demo_env\<lparr>to_epsg4326 := (\<lambda>crs g. {})\<rparr>"

subsection \<open>What the footprint cache may hold\<close>

text \<open>A feature whose geometry is a geometry that is not empty.\<close>

definition feature_geometry_nonempty :: "json \<Rightarrow> bool" where
  "feature_geometry_nonempty feature =
     (case json_field ''geometry'' feature of
        Some (JGeometry g) \<Rightarrow> \<not> is_empty_geom g
      | _ \<Rightarrow> False)"

text \<open>Every feature stored for \<open>get_footprint_geojson\<close> has such a geometry.\<close>

definition footprint_cache_ok :: "('db, 'ts) world \<Rightarrow> bool" where
  "footprint_cache_ok w \<longleftrightarrow>
     (\<forall>k expires feature.
        footprint_geojson_cache w k = Some (expires, Some feature)
        \<longrightarrow> feature_geometry_nonempty feature)"

section \<open>Properties\<close>

subsection \<open>The decorator\<close>

lemma memoize_miss:
  "cache_miss (now w) (table w) key \<Longrightarrow>
   fst (memoize timeout table update key f w) = fst (f w)"
  by (simp add: memoize_def cache_miss_def split: prod.splits sum.splits)

text \<open>Unfolding a call of \<open>get_summary\<close> on a concrete world.\<close>

lemmas run_defs = get_summary_def memoize_def cache_get_def get_summary_uncached_def called_def

subsection \<open>The region clipper\<close>

text \<open>
  C2. With a footprint, a region whose full extent does not meet the boundary of the
  footprint keeps its full extent: the function returned by
  \<^verbatim>\<open>_region_geometry_function\<close> maps the region code to exactly the geometry of
  the catalogue, whatever the footprint and whatever shapely takes as its boundary.
\<close>

theorem region_off_boundary_unchanged:
  "geographic_extent region_info = Some shape \<Longrightarrow>
   \<not> intersects (boundary E footprint) (shape region_code) \<Longrightarrow>
   \<exists>cut. priv_region_geometry_function E region_info (Some footprint) = Some cut \<and>
         cut region_code = Inr (shape region_code)"
  by (simp add: priv_region_geometry_function_def region_geometry_cut_def)

theorem region_off_boundary_unchanged_witness:
  "geographic_extent demo_region_info = Some demo_region_shape \<and>
   \<not> intersects (boundary demo_env demo_footprint) (demo_region_shape ''r1'') \<and>
   (\<exists>cut. priv_region_geometry_function demo_env demo_region_info (Some demo_footprint)
            = Some cut \<and>
         cut ''r1'' = Inr {(1, 1)})"
proof -
  have a: "geographic_extent demo_region_info = Some demo_region_shape"
    by (simp add: demo_region_info_def)
  have b: "\<not> intersects (boundary demo_env demo_footprint) (demo_region_shape ''r1'')"
    by (simp add: intersects_def demo_env_def demo_boundary_def demo_footprint_def
        demo_region_shape_def)
  show ?thesis
    using a b region_off_boundary_unchanged [OF a b] by (simp add: demo_region_shape_def)
qed

text \<open>
  C3. With a footprint, a region whose full extent meets the boundary of the footprint
  is mapped to the intersection of the footprint with that extent, and the result lies
  within the extent.
\<close>

theorem region_on_boundary_clipped:
  "geographic_extent region_info = Some shape \<Longrightarrow>
   intersects (boundary E footprint) (shape region_code) \<Longrightarrow>
   \<exists>cut. priv_region_geometry_function E region_info (Some footprint) = Some cut \<and>
         cut region_code = Inr (intersection footprint (shape region_code)) \<and>
         intersection footprint (shape region_code) \<subseteq> shape region_code"
  by (simp add: priv_region_geometry_function_def region_geometry_cut_def intersection_def)

theorem region_on_boundary_clipped_witness:
  "geographic_extent demo_region_info = Some demo_region_shape \<and>
   intersects (boundary demo_env demo_footprint) (demo_region_shape ''r2'') \<and>
   (\<exists>cut. priv_region_geometry_function demo_env demo_region_info (Some demo_footprint)
            = Some cut \<and>
         cut ''r2'' = Inr {(2, 2)} \<and> {(2, 2)} \<subseteq> demo_region_shape ''r2'')"
proof -
  have a: "geographic_extent demo_region_info = Some demo_region_shape"
    by (simp add: demo_region_info_def)
  have b: "intersects (boundary demo_env demo_footprint) (demo_region_shape ''r2'')"
    by (simp add: intersects_def demo_env_def demo_boundary_def demo_footprint_def
        demo_region_shape_def)
  have c: "intersection demo_footprint (demo_region_shape ''r2'') = {(2, 2)}"
    by (simp add: intersection_def demo_footprint_def demo_region_shape_def)
  show ?thesis
    using a b region_on_boundary_clipped [OF a b] by (simp add: c)
qed

subsection \<open>The reprojector\<close>

text \<open>
  C4, as worded: the reprojector is absent for an absent summary, a zero count or a
  missing footprint geometry, and the transformed footprint otherwise. It fails for a
  summary whose footprint geometry is present but empty: the geometry is tested for
  truth, an empty geometry is false, and the result is absent.
\<close>

theorem get_footprint_empty_geometry_counterexample:
  "priv_get_footprint demo_env (Some empty_footprint_period) = None \<and>
   spec_get_footprint demo_env (Some empty_footprint_period) = Some {}"
  by (simp add: priv_get_footprint_def spec_get_footprint_def empty_footprint_period_def
      demo_period_def demo_env_def is_empty_geom_def)

text \<open>
  C4, amended: the reprojector is absent for an absent summary, a zero count, and a
  footprint geometry that is missing or empty; otherwise it is the footprint geometry
  transformed from the summary's coordinate system to \<^verbatim>\<open>epsg:4326\<close>.
\<close>

theorem get_footprint_absent_or_reprojected:
  "priv_get_footprint E None = None \<and>
   (dataset_count p = 0 \<or> footprint_geometry p = None
      \<or> (\<exists>g. footprint_geometry p = Some g \<and> is_empty_geom g)
    \<longrightarrow> priv_get_footprint E (Some p) = None) \<and>
   (dataset_count p \<noteq> 0 \<and> footprint_geometry p = Some g \<and> \<not> is_empty_geom g
    \<longrightarrow> priv_get_footprint E (Some p) = Some (to_epsg4326 E (footprint_crs p) g))"
  by (auto simp add: priv_get_footprint_def)

theorem get_footprint_absent_or_reprojected_witness:
  "(\<exists>g. footprint_geometry empty_footprint_period = Some g \<and> is_empty_geom g) \<and>
   priv_get_footprint demo_env (Some empty_footprint_period) = None \<and>
   dataset_count demo_period \<noteq> 0 \<and> footprint_geometry demo_period = Some demo_footprint \<and>
   \<not> is_empty_geom demo_footprint \<and>
   priv_get_footprint demo_env (Some demo_period) = Some demo_footprint"
proof -
  have a: "\<exists>g. footprint_geometry empty_footprint_period = Some g \<and> is_empty_geom g"
    by (simp add: empty_footprint_period_def is_empty_geom_def)
  have b: "dataset_count demo_period \<noteq> 0 \<and> footprint_geometry demo_period = Some demo_footprint
             \<and> \<not> is_empty_geom demo_footprint"
    by (simp add: demo_period_def is_empty_geom_def demo_footprint_def)
  have c: "to_epsg4326 demo_env (footprint_crs demo_period) demo_footprint = demo_footprint"
    by (simp add: demo_env_def)
  show ?thesis
    using a b c
      get_footprint_absent_or_reprojected [of demo_env empty_footprint_period "{}"]
      get_footprint_absent_or_reprojected [of demo_env demo_period demo_footprint]
    by simp
qed

subsection \<open>The region collection\<close>

lemma Min_insert_min:
  "finite S \<Longrightarrow> Min (insert (min a y) S) = Min (insert (a::int) (insert y S))"
  by (cases "S = {}") (simp_all add: min.assoc)

lemma Max_insert_max:
  "finite S \<Longrightarrow> Max (insert (max a y) S) = Max (insert (a::int) (insert y S))"
  by (cases "S = {}") (simp_all add: max.assoc)

lemma fold_min_Min:
  "fold (\<lambda>y best. if y < best then y else best) xs a = Min (insert (a::int) (set xs))"
proof (induction xs arbitrary: a)
  case Nil
  then show ?case by simp
next
  case (Cons y ys)
  have "(if y < a then y else a) = min a y" by (simp add: min_def)
  then show ?case using Cons.IH [of "min a y"] by (simp add: Min_insert_min)
qed

lemma fold_max_Max:
  "fold (\<lambda>y best. if y > best then y else best) xs a = Max (insert (a::int) (set xs))"
proof (induction xs arbitrary: a)
  case Nil
  then show ?case by simp
next
  case (Cons y ys)
  have "(if y > a then y else a) = max a y" by (simp add: max_def)
  then show ?case using Cons.IH [of "max a y"] by (simp add: Max_insert_max)
qed

lemma py_min_Min: "xs \<noteq> [] \<Longrightarrow> py_min xs = Inr (Min (set xs))"
  by (cases xs) (simp_all add: py_min_def fold_min_Min)

lemma py_max_Max: "xs \<noteq> [] \<Longrightarrow> py_max xs = Inr (Max (set xs))"
  by (cases xs) (simp_all add: py_max_def fold_max_Max)

lemma json_field_JObj: "json_field k (JObj kvs) = map_of kvs k"
  by (simp add: json_field_def)

lemma region_geometry_total:
  "geographic_extent region_info = Some shape \<Longrightarrow>
   \<exists>rg. priv_region_geometry_function E region_info footprint = Some rg \<and>
        (\<forall>c. \<exists>g. rg c = Inr g)"
  by (cases footprint)
    (simp_all add: priv_region_geometry_function_def region_geometry_cut_def Let_def)

lemma region_features_properties:
  "\<forall>c. \<exists>g. rg c = Inr g \<Longrightarrow>
   \<exists>fs. region_features rg ri counts codes = Inr fs \<and>
        map (json_field ''type'') fs = map (\<lambda>c. Some (JStr ''Feature'')) codes \<and>
        map (json_field ''properties'') fs =
          map (\<lambda>c. Some (JObj [(''region_code'', JStr c),
                                (''label'', JStr (region_label ri c)),
                                (''count'', JInt (counter_get counts c))])) codes"
proof (induction codes)
  case Nil
  then show ?case by simp
next
  case (Cons c cs)
  from Cons.prems obtain g where g: "rg c = Inr g" by blast
  from Cons.IH [OF Cons.prems] obtain fs where
    fs: "region_features rg ri counts cs = Inr fs"
      "map (json_field ''type'') fs = map (\<lambda>c. Some (JStr ''Feature'')) cs"
      "map (json_field ''properties'') fs =
          map (\<lambda>c. Some (JObj [(''region_code'', JStr c),
                                (''label'', JStr (region_label ri c)),
                                (''count'', JInt (counter_get counts c))])) cs"
    by blast
  show ?case using g fs by (simp add: json_field_JObj)
qed

lemma counter_get_distinct:
  "distinct (map fst counts) \<Longrightarrow> (c, n) \<in> set counts \<Longrightarrow> counter_get counts c = n"
  by (simp add: counter_get_def)

lemma counter_items:
  "distinct (map fst counts) \<Longrightarrow>
   map (\<lambda>c. f c (counter_get counts c)) (map fst counts) = map (\<lambda>(c, n). f c n) counts"
  by (auto simp add: counter_get_distinct)

text \<open>
  C5. For a non-empty counts mapping (a dict: its keys are distinct) and a catalogue
  that has a geometry function, the collection is assembled; its \<open>min_count\<close> and
  \<open>max_count\<close> are the least and the greatest count of the mapping, and its features
  are, in the order of the mapping, one per region code, with that code, its label and
  its count as properties.
\<close>

theorem regions_collection_counts:
  assumes "region_counts \<noteq> []"
    and "distinct (map fst region_counts)"
    and "geographic_extent region_info = Some shape"
  shows "\<exists>features.
           priv_get_regions_geojson E region_counts footprint region_info =
             Inr (Some (JObj
               [(''type'', JStr ''FeatureCollection''),
                (''properties'', JObj
                   [(''region_type'', JStr (name region_info)),
                    (''region_unit_label'', JStr (unit_label region_info)),
                    (''min_count'', JInt (Min (snd ` set region_counts))),
                    (''max_count'', JInt (Max (snd ` set region_counts)))]),
                (''features'', JList features)])) \<and>
           map (json_field ''type'') features =
             map (\<lambda>(code, n). Some (JStr ''Feature'')) region_counts \<and>
           map (json_field ''properties'') features =
             map (\<lambda>(code, n). Some (JObj
                    [(''region_code'', JStr code),
                     (''label'', JStr (region_label region_info code)),
                     (''count'', JInt n)])) region_counts"
proof -
  from region_geometry_total [OF assms(3)] obtain rg where
    rg: "priv_region_geometry_function E region_info footprint = Some rg"
      "\<forall>c. \<exists>g. rg c = Inr g"
    by blast
  from region_features_properties [OF rg(2)] obtain fs where
    fs: "region_features rg region_info region_counts (map fst region_counts) = Inr fs"
      "map (json_field ''type'') fs = map (\<lambda>c. Some (JStr ''Feature'')) (map fst region_counts)"
      "map (json_field ''properties'') fs =
          map (\<lambda>c. Some (JObj [(''region_code'', JStr c),
                                (''label'', JStr (region_label region_info c)),
                                (''count'', JInt (counter_get region_counts c))]))
            (map fst region_counts)"
    by blast
  have low: "py_min (map snd region_counts) = Inr (Min (snd ` set region_counts))"
    using assms(1) by (simp add: py_min_Min)
  have high: "py_max (map snd region_counts) = Inr (Max (snd ` set region_counts))"
    using assms(1) by (simp add: py_max_Max)
  have types: "map (json_field ''type'') fs =
                 map (\<lambda>(code, n). Some (JStr ''Feature'')) region_counts"
    using fs(2) by (simp add: case_prod_unfold comp_def)
  have props: "map (json_field ''properties'') fs =
             map (\<lambda>(code, n). Some (JObj
                    [(''region_code'', JStr code),
                     (''label'', JStr (region_label region_info code)),
                     (''count'', JInt n)])) region_counts"
    using fs(3)
      counter_items [OF assms(2),
        of "\<lambda>c n. Some (JObj [(''region_code'', JStr c),
                                (''label'', JStr (region_label region_info c)),
                                (''count'', JInt n)])"]
    by simp
  show ?thesis
    using rg(1) fs(1) low high types props by (simp add: priv_get_regions_geojson_def)
qed

theorem regions_collection_counts_witness:
  "abc_counts \<noteq> [] \<and> distinct (map fst abc_counts) \<and>
   geographic_extent demo_region_info = Some demo_region_shape \<and>
   (\<exists>features.
      priv_get_regions_geojson demo_env abc_counts (Some demo_footprint) demo_region_info =
        Inr (Some (JObj
          [(''type'', JStr ''FeatureCollection''),
           (''properties'', JObj
              [(''region_type'', JStr ''grid''),
               (''region_unit_label'', JStr ''tile''),
               (''min_count'', JInt 2),
               (''max_count'', JInt 5)]),
           (''features'', JList features)])) \<and>
      map (json_field ''properties'') features =
        [Some (JObj [(''region_code'', JStr ''A''), (''label'', JStr ''Tile A''),
                     (''count'', JInt 2)]),
         Some (JObj [(''region_code'', JStr ''B''), (''label'', JStr ''Tile B''),
                     (''count'', JInt 5)]),
         Some (JObj [(''region_code'', JStr ''C''), (''label'', JStr ''Tile C''),
                     (''count'', JInt 5)])])"
proof -
  have a: "abc_counts \<noteq> []" by (simp add: abc_counts_def)
  have b: "distinct (map fst abc_counts)" by (simp add: abc_counts_def)
  have c: "geographic_extent demo_region_info = Some demo_region_shape"
    by (simp add: demo_region_info_def)
  have d: "Min (snd ` set abc_counts) = 2" "Max (snd ` set abc_counts) = 5"
    by (simp_all add: abc_counts_def)
  have e: "name demo_region_info = ''grid''" "unit_label demo_region_info = ''tile''"
    "region_label demo_region_info = (\<lambda>c. ''Tile '' @ c)"
    by (simp_all add: demo_region_info_def)
  from regions_collection_counts [OF a b c, of demo_env "Some demo_footprint"]
  obtain features where
    f: "priv_get_regions_geojson demo_env abc_counts (Some demo_footprint) demo_region_info =
             Inr (Some (JObj
               [(''type'', JStr ''FeatureCollection''),
                (''properties'', JObj
                   [(''region_type'', JStr (name demo_region_info)),
                    (''region_unit_label'', JStr (unit_label demo_region_info)),
                    (''min_count'', JInt (Min (snd ` set abc_counts))),
                    (''max_count'', JInt (Max (snd ` set abc_counts)))]),
                (''features'', JList features)]))"
      "map (json_field ''properties'') features =
             map (\<lambda>(code, n). Some (JObj
                    [(''region_code'', JStr code),
                     (''label'', JStr (region_label demo_region_info code)),
                     (''count'', JInt n)])) abc_counts"
    by blast
  have g: "map (\<lambda>(code, n). Some (JObj
                    [(''region_code'', JStr code),
                     (''label'', JStr (region_label demo_region_info code)),
                     (''count'', JInt n)])) abc_counts =
        [Some (JObj [(''region_code'', JStr ''A''), (''label'', JStr ''Tile A''),
                     (''count'', JInt 2)]),
         Some (JObj [(''region_code'', JStr ''B''), (''label'', JStr ''Tile B''),
                     (''count'', JInt 5)]),
         Some (JObj [(''region_code'', JStr ''C''), (''label'', JStr ''Tile C''),
                     (''count'', JInt 5)])]"
    by (simp add: abc_counts_def e)
  show ?thesis using a b c f [unfolded d e] g f(2) by auto
qed


subsection \<open>The footprint feature\<close>

text \<open>
  C1, as worded: the \<open>dataset_count\<close> property of the footprint feature is the
  summary's dataset count. The demo summary counts 3 datasets, 2 of them in the
  footprint, and the feature says 2: the property is the summary's
  \<open>footprint_count\<close>.
\<close>

theorem footprint_feature_dataset_count_counterexample:
  "fst (get_summary demo_env ''demo_scene'' None None None demo_world)
     = Inr (Some demo_period) \<and>
   dataset_count demo_period = 3 \<and>
   fst (get_footprint_geojson demo_env ''demo_scene'' None None None demo_world) =
     Inr (Some (JObj
       [(''type'', JStr ''Feature''),
        (''geometry'', JGeometry demo_footprint),
        (''properties'', JObj
           [(''dataset_count'', JInt 2),
            (''product_name'', JStr ''demo_scene''),
            (''time_spec'', JList [JNull, JNull, JNull])])]))"
  by (simp add: get_footprint_geojson_def get_footprint_geojson_uncached_def
      get_summary_def memoize_def cache_get_def get_summary_uncached_def called_def
      priv_get_footprint_def is_empty_geom_def json_of_opt_def
      demo_env_def demo_world_def demo_period_def demo_footprint_def)

text \<open>
  C1, amended. When \<open>get_summary\<close> answers with a summary and the reprojected
  footprint is present and not empty, the body of \<open>get_footprint_geojson\<close> returns
  the feature whose geometry is that footprint and whose properties are exactly
  \<open>dataset_count\<close> = the summary's \<open>footprint_count\<close>, \<open>product_name\<close> = the
  requested name, \<open>time_spec\<close> = \<open>[year, month, day]\<close> with null for an unset
  level; so does the memoised function on every call that computes.
\<close>

theorem footprint_feature_properties:
  "get_summary E product_name year month day w = (Inr (Some period), w1) \<Longrightarrow>
   priv_get_footprint E (Some period) = Some footprint \<Longrightarrow>
   \<not> is_empty_geom footprint \<Longrightarrow>
   get_footprint_geojson_uncached E product_name year month day w =
     (Inr (Some (JObj
        [(''type'', JStr ''Feature''),
         (''geometry'', JGeometry footprint),
         (''properties'', JObj
            [(''dataset_count'', JInt (footprint_count period)),
             (''product_name'', JStr product_name),
             (''time_spec'', JList [json_of_opt year, json_of_opt month, json_of_opt day])])])),
      w1) \<and>
   (cache_miss (now w) (footprint_geojson_cache w) (product_name, year, month, day) \<longrightarrow>
    fst (get_footprint_geojson E product_name year month day w) =
      Inr (Some (JObj
        [(''type'', JStr ''Feature''),
         (''geometry'', JGeometry footprint),
         (''properties'', JObj
            [(''dataset_count'', JInt (footprint_count period)),
             (''product_name'', JStr product_name),
             (''time_spec'',
                JList [json_of_opt year, json_of_opt month, json_of_opt day])])])))"
  by (simp add: get_footprint_geojson_def memoize_miss get_footprint_geojson_uncached_def)

theorem footprint_feature_properties_witness:
  "get_summary demo_env ''demo_scene'' (Some 2018) None None demo_world =
     (Inr (Some demo_period),
      snd (get_summary demo_env ''demo_scene'' (Some 2018) None None demo_world)) \<and>
   priv_get_footprint demo_env (Some demo_period) = Some demo_footprint \<and>
   \<not> is_empty_geom demo_footprint \<and>
   cache_miss (now demo_world) (footprint_geojson_cache demo_world)
     (''demo_scene'', Some 2018, None, None) \<and>
   fst (get_footprint_geojson demo_env ''demo_scene'' (Some 2018) None None demo_world) =
      Inr (Some (JObj
        [(''type'', JStr ''Feature''),
         (''geometry'', JGeometry demo_footprint),
         (''properties'', JObj
            [(''dataset_count'', JInt 2),
             (''product_name'', JStr ''demo_scene''),
             (''time_spec'', JList [JInt 2018, JNull, JNull])])]))"
proof -
  have a: "get_summary demo_env ''demo_scene'' (Some 2018) None None demo_world =
     (Inr (Some demo_period),
      snd (get_summary demo_env ''demo_scene'' (Some 2018) None None demo_world))"
    by (simp add: prod_eq_iff get_summary_def memoize_def cache_get_def
        get_summary_uncached_def demo_env_def demo_world_def)
  have b: "priv_get_footprint demo_env (Some demo_period) = Some demo_footprint"
    by (simp add: priv_get_footprint_def is_empty_geom_def demo_env_def demo_period_def
        demo_footprint_def)
  have c: "\<not> is_empty_geom demo_footprint"
    by (simp add: is_empty_geom_def demo_footprint_def)
  have d: "cache_miss (now demo_world) (footprint_geojson_cache demo_world)
             (''demo_scene'', Some 2018, None, None)"
    by (simp add: cache_miss_def cache_get_def demo_world_def)
  have e: "footprint_count demo_period = 2"
    by (simp add: demo_period_def)
  show ?thesis
    using a b c d footprint_feature_properties [OF a b c] by (simp add: e json_of_opt_def)
qed

subsection \<open>The regions of a product\<close>

text \<open>
  C7. When \<open>get_summary\<close> answers with a summary and the catalogue does not know the
  product, the body of \<open>get_regions_geojson\<close> raises \<open>RuntimeError\<close> with the
  message and the product name, right after asking the catalogue; the memoised function
  raises the same error on every call that computes.
\<close>

theorem unknown_product_raises:
  "get_summary E product_name year month day w = (Inr (Some period), w1) \<Longrightarrow>
   products_get_by_name E (db w1) product_name = None \<Longrightarrow>
   get_regions_geojson_uncached E product_name year month day w =
     (Inl (RuntimeError [''Unknown product despite having a summary?'', product_name]),
      called (ProductsGetByName product_name) w1) \<and>
   (cache_miss (now w) (regions_geojson_cache w) (product_name, year, month, day) \<longrightarrow>
    get_regions_geojson E product_name year month day w =
     (Inl (RuntimeError [''Unknown product despite having a summary?'', product_name]),
      called (ProductsGetByName product_name) w1))"
  by (simp add: get_regions_geojson_def memoize_def cache_miss_def
      get_regions_geojson_uncached_def Let_def)

theorem unknown_product_raises_witness:
  "get_summary orphan_env ''gone'' None None None demo_world =
     (Inr (Some no_regions_period), snd (get_summary orphan_env ''gone'' None None None demo_world)) \<and>
   products_get_by_name orphan_env
     (db (snd (get_summary orphan_env ''gone'' None None None demo_world))) ''gone'' = None \<and>
   cache_miss (now demo_world) (regions_geojson_cache demo_world) (''gone'', None, None, None) \<and>
   fst (get_regions_geojson orphan_env ''gone'' None None None demo_world) =
     Inl (RuntimeError [''Unknown product despite having a summary?'', ''gone''])"
proof -
  have a: "get_summary orphan_env ''gone'' None None None demo_world =
     (Inr (Some no_regions_period), snd (get_summary orphan_env ''gone'' None None None demo_world))"
   by (simp add: prod_eq_iff get_summary_def memoize_def cache_get_def
        get_summary_uncached_def orphan_env_def demo_env_def demo_world_def)
  have b: "products_get_by_name orphan_env
     (db (snd (get_summary orphan_env ''gone'' None None None demo_world))) ''gone'' = None"
    by (simp add: orphan_env_def demo_env_def)
  have c: "cache_miss (now demo_world) (regions_geojson_cache demo_world) (''gone'', None, None, None)"
    by (simp add: cache_miss_def cache_get_def demo_world_def)
  show ?thesis using a b c unknown_product_raises [OF a b] by simp
qed

text \<open>
  C6, as worded: absence, never an exception, when the summary has no region counts.
  The summary below has none, the catalogue does not know its product, and the call
  raises: the catalogue is asked before the counts are looked at.
\<close>

theorem regions_empty_counts_unknown_product_counterexample:
  "fst (get_summary orphan_env ''gone'' None None None demo_world) = Inr (Some no_regions_period) \<and>
   region_dataset_counts no_regions_period = [] \<and>
   fst (get_regions_geojson orphan_env ''gone'' None None None demo_world) =
     Inl (RuntimeError [''Unknown product despite having a summary?'', ''gone''])"
  by (simp add: get_regions_geojson_def get_regions_geojson_uncached_def
      get_summary_def memoize_def cache_get_def get_summary_uncached_def called_def
      orphan_env_def no_regions_period_def
      demo_env_def demo_world_def demo_period_def)

text \<open>
  C6, amended. \<open>get_regions_geojson\<close> returns absence when \<open>get_summary\<close> answers
  with no summary; and, when the catalogue knows the product, also when the summary has
  no region counts, when the product has no region catalogue, and when the region
  catalogue has no geometry function and the summary has no footprint. This holds for
  the body and for the memoised function on every call that computes.
\<close>

theorem regions_geojson_absent:
  "get_summary E product_name year month day w = (Inr summary, w1) \<Longrightarrow>
   summary = None \<or>
   (\<exists>period product. summary = Some period \<and>
      products_get_by_name E (db w1) product_name = Some product \<and>
      (region_dataset_counts period = [] \<or>
       for_product E product = None \<or>
       (\<exists>region_info. for_product E product = Some region_info \<and>
          geographic_extent region_info = None \<and>
          priv_get_footprint E (Some period) = None))) \<Longrightarrow>
   fst (get_regions_geojson_uncached E product_name year month day w) = Inr None \<and>
   (cache_miss (now w) (regions_geojson_cache w) (product_name, year, month, day) \<longrightarrow>
    fst (get_regions_geojson E product_name year month day w) = Inr None)"
  by (auto simp add: get_regions_geojson_def memoize_miss
      get_regions_geojson_uncached_def Let_def priv_get_regions_geojson_def
      priv_region_geometry_function_def)

theorem regions_geojson_absent_witness:
  "fst (get_regions_geojson demo_env ''unknown'' None None None demo_world) = Inr None \<and>
   fst (get_regions_geojson no_regions_env ''demo_scene'' None None None demo_world) = Inr None \<and>
   fst (get_regions_geojson no_catalog_env ''demo_scene'' None None None demo_world) = Inr None \<and>
   fst (get_regions_geojson shapeless_env ''demo_scene'' None None None demo_world) = Inr None"
proof -
  let ?k = "(''demo_scene'', None, None, None)"
  have miss: "cache_miss (now demo_world) (regions_geojson_cache demo_world) k" for k
    by (simp add: cache_miss_def cache_get_def demo_world_def)
  have a1: "get_summary demo_env ''unknown'' None None None demo_world =
     (Inr None, snd (get_summary demo_env ''unknown'' None None None demo_world))"
    by (simp add: prod_eq_iff run_defs demo_env_def demo_world_def)
  have a2: "get_summary no_regions_env ''demo_scene'' None None None demo_world =
     (Inr (Some no_regions_period),
      snd (get_summary no_regions_env ''demo_scene'' None None None demo_world))"
    by (simp add: prod_eq_iff run_defs no_regions_env_def demo_env_def demo_world_def)
  have b2: "products_get_by_name no_regions_env
              (db (snd (get_summary no_regions_env ''demo_scene'' None None None demo_world)))
              ''demo_scene'' = Some demo_product \<and> region_dataset_counts no_regions_period = []"
    by (simp add: no_regions_env_def demo_env_def no_regions_period_def)
  have a3: "get_summary no_catalog_env ''demo_scene'' None None None demo_world =
     (Inr (Some demo_period),
      snd (get_summary no_catalog_env ''demo_scene'' None None None demo_world))"
    by (simp add: prod_eq_iff run_defs no_catalog_env_def demo_env_def demo_world_def)
  have b3: "products_get_by_name no_catalog_env
              (db (snd (get_summary no_catalog_env ''demo_scene'' None None None demo_world)))
              ''demo_scene'' = Some demo_product \<and> for_product no_catalog_env demo_product = None"
    by (simp add: no_catalog_env_def demo_env_def)
  have a4: "get_summary shapeless_env ''demo_scene'' None None None demo_world =
     (Inr (Some no_datasets_period),
      snd (get_summary shapeless_env ''demo_scene'' None None None demo_world))"
    by (simp add: prod_eq_iff run_defs shapeless_env_def demo_env_def demo_world_def)
  have b4: "products_get_by_name shapeless_env
              (db (snd (get_summary shapeless_env ''demo_scene'' None None None demo_world)))
              ''demo_scene'' = Some demo_product \<and>
            for_product shapeless_env demo_product = Some shapeless_region_info \<and>
            geographic_extent shapeless_region_info = None \<and>
            priv_get_footprint shapeless_env (Some no_datasets_period) = None"
    by (simp add: shapeless_env_def demo_env_def shapeless_region_info_def
        priv_get_footprint_def no_datasets_period_def)
  show ?thesis
    using regions_geojson_absent [OF a1] regions_geojson_absent [OF a2] regions_geojson_absent [OF a3] regions_geojson_absent [OF a4] b2 b3 b4 miss
    by simp
qed

text \<open>
  A region catalogue without a geometry function, met with a footprint: the closure is
  returned whatever the catalogue holds, and calling it raises.
\<close>

lemma regions_geojson_shapeless_with_footprint:
  "fst (get_regions_geojson shapeless_footprint_env ''demo_scene'' None None None demo_world)
     = Inl TypeError"
  by (simp add: get_regions_geojson_def get_regions_geojson_uncached_def run_defs
      priv_get_regions_geojson_def priv_region_geometry_function_def region_geometry_cut_def
      priv_get_footprint_def is_empty_geom_def py_min_def py_max_def
      shapeless_footprint_env_def shapeless_region_info_def demo_region_info_def
      demo_env_def demo_world_def demo_period_def demo_footprint_def demo_product_def)

subsection \<open>The time of the last update\<close>

text \<open>
  What the body of \<open>get_last_updated\<close> does, case by case. It looks at the override
  file first. If reading the file raises, the exception escapes. If the text parses, the
  parsed time is returned and the store is not asked. If the parser raises
  \<open>ValueError\<close>, one warning is logged and the store's time is returned. If the
  parser raises anything else, the exception escapes: nothing is logged and the store
  is not asked. If the file does not exist, the store's time is returned and nothing is
  logged. The memoised function returns the same on every call that computes.
\<close>

lemma last_updated_cases:
  "(generated_txt w = Some (Inl e) \<longrightarrow> get_last_updated_uncached E w = (Inl e, w)) \<and>
   (generated_txt w = Some (Inr date_text) \<and> dateutil_parse E date_text = Inr t
    \<longrightarrow> get_last_updated_uncached E w = (Inr t, w)) \<and>
   (generated_txt w = Some (Inr date_text) \<and> dateutil_parse E date_text = Inl ValueError
    \<longrightarrow> get_last_updated_uncached E w =
          (Inr (store_get_last_updated E (db w)),
           called GetLastUpdated
             (w\<lparr>log := log w @ [Warn ''invalid.summary.generated.txt'' date_text]\<rparr>))) \<and>
   (generated_txt w = Some (Inr date_text) \<and> dateutil_parse E date_text = Inl e
      \<and> e \<noteq> ValueError
    \<longrightarrow> get_last_updated_uncached E w = (Inl e, w)) \<and>
   (generated_txt w = None
    \<longrightarrow> get_last_updated_uncached E w =
          (Inr (store_get_last_updated E (db w)), called GetLastUpdated w)) \<and>
   (cache_miss (now w) (last_updated_cache w) ()
    \<longrightarrow> fst (get_last_updated E w) = fst (get_last_updated_uncached E w))"
  by (simp add: get_last_updated_uncached_def store_last_updated_def called_def
      get_last_updated_def memoize_miss)

lemma last_updated_cases_run:
  "fst (get_last_updated demo_env (demo_world\<lparr>generated_txt := Some (Inr ''2018-06-01'')\<rparr>))
     = Inr ''2018-06-01'' \<and>
   get_last_updated_uncached demo_env (demo_world\<lparr>generated_txt := Some (Inr ''last week'')\<rparr>)
     = (Inr ''2018-05-01'',
        demo_world\<lparr>generated_txt := Some (Inr ''last week''),
                   log := [Warn ''invalid.summary.generated.txt'' ''last week''],
                   store_calls := [GetLastUpdated]\<rparr>) \<and>
   get_last_updated_uncached demo_env demo_world
     = (Inr ''2018-05-01'', demo_world\<lparr>store_calls := [GetLastUpdated]\<rparr>)"
  by (simp add: get_last_updated_def get_last_updated_uncached_def store_last_updated_def
      memoize_def cache_get_def called_def demo_env_def demo_world_def)

text \<open>
  C8. The claim: when the override file exists and its content cannot be parsed, a
  warning is logged and the store's time is returned. The override text
  \<open>99999999999999999999\<close> cannot be parsed, the parser raises \<open>OverflowError\<close>, and
  the handler catches \<open>ValueError\<close> only: the call raises, the world is left as it
  was, with no warning in the log and the store not asked.
\<close>

theorem last_updated_overflow_escapes:
  "dateutil_parse demo_env ''99999999999999999999'' = Inl OverflowError \<and>
   get_last_updated demo_env
     (demo_world\<lparr>generated_txt := Some (Inr ''99999999999999999999'')\<rparr>)
     = (Inl OverflowError, demo_world\<lparr>generated_txt := Some (Inr ''99999999999999999999'')\<rparr>) \<and>
   log (demo_world\<lparr>generated_txt := Some (Inr ''99999999999999999999'')\<rparr>) = [] \<and>
   store_calls (demo_world\<lparr>generated_txt := Some (Inr ''99999999999999999999'')\<rparr>) = []"
  by (simp add: get_last_updated_def get_last_updated_uncached_def store_last_updated_def
      memoize_def cache_get_def called_def demo_env_def demo_world_def)

subsection \<open>No feature with an empty geometry\<close>

lemma get_summary_keeps_footprint_cache:
  "footprint_geojson_cache (snd (get_summary E product_name year month day w))
     = footprint_geojson_cache w"
  by (simp add: get_summary_def memoize_def get_summary_uncached_def called_def
      split: option.splits prod.splits sum.splits)

lemma uncached_feature_nonempty:
  "get_footprint_geojson_uncached E product_name year month day w = (Inr (Some feature), w1)
   \<Longrightarrow> feature_geometry_nonempty feature \<and>
       w1 = snd (get_summary E product_name year month day w)"
  by (auto simp add: get_footprint_geojson_uncached_def feature_geometry_nonempty_def
      json_field_def split: prod.splits sum.splits option.splits if_splits)

lemma cache_get_entry:
  "cache_get t c k = Some v \<Longrightarrow> \<exists>expires. c k = Some (expires, v)"
  by (auto simp add: cache_get_def split: option.splits if_splits)

text \<open>
  C10. When \<open>get_summary\<close> answers with a summary, the body of
  \<open>get_footprint_geojson\<close> returns absence both when \<^verbatim>\<open>_get_footprint\<close> is
  absent and when it is an empty geometry. And the memoised function never returns a
  feature with an empty geometry: from a world whose footprint cache holds only
  features with a geometry that is not empty (an empty cache, to begin with), every
  feature it returns, computed or taken from the cache, has such a geometry, and the
  cache it leaves holds only such features again.
\<close>

theorem empty_footprint_never_emitted:
  "(get_summary E product_name year month day w = (Inr (Some period), w1) \<and>
    (priv_get_footprint E (Some period) = None \<or>
     (\<exists>g. priv_get_footprint E (Some period) = Some g \<and> is_empty_geom g))
    \<longrightarrow> get_footprint_geojson_uncached E product_name year month day w = (Inr None, w1)) \<and>
   (footprint_cache_ok w \<and>
    get_footprint_geojson E product_name year month day w = (Inr (Some feature), w')
    \<longrightarrow> feature_geometry_nonempty feature \<and> footprint_cache_ok w')"
proof (rule conjI; rule impI)
  assume "get_summary E product_name year month day w = (Inr (Some period), w1) \<and>
    (priv_get_footprint E (Some period) = None \<or>
     (\<exists>g. priv_get_footprint E (Some period) = Some g \<and> is_empty_geom g))"
  then show "get_footprint_geojson_uncached E product_name year month day w = (Inr None, w1)"
    by (auto simp add: get_footprint_geojson_uncached_def)
next
  assume a: "footprint_cache_ok w \<and>
    get_footprint_geojson E product_name year month day w = (Inr (Some feature), w')"
  let ?k = "(product_name, year, month, day)"
  show "feature_geometry_nonempty feature \<and> footprint_cache_ok w'"
  proof (cases "cache_get (now w) (footprint_geojson_cache w) ?k")
    case (Some v)
    with a have eq: "v = Some feature" "w' = w"
      by (simp_all add: get_footprint_geojson_def memoize_def)
    from cache_get_entry [OF Some] eq(1) obtain expires where
      "footprint_geojson_cache w ?k = Some (expires, Some feature)" by blast
    with a eq show ?thesis by (auto simp add: footprint_cache_ok_def)
  next
    case None
    obtain r w1 where run: "get_footprint_geojson_uncached E product_name year month day w = (r, w1)"
      by (cases "get_footprint_geojson_uncached E product_name year month day w")
    with a None have r: "r = Inr (Some feature)"
      and w': "w' = footprint_geojson_cache_update
                      (\<lambda>c. c(?k \<mapsto> (now w1 + 60, Some feature))) w1"
      by (auto simp add: get_footprint_geojson_def memoize_def split: sum.splits)
    from uncached_feature_nonempty [OF run [unfolded r]]
    have ne: "feature_geometry_nonempty feature"
      and w1: "w1 = snd (get_summary E product_name year month day w)" by simp_all
    have "footprint_geojson_cache w1 = footprint_geojson_cache w"
      using w1 get_summary_keeps_footprint_cache by simp
    with a ne w' show ?thesis by (auto simp add: footprint_cache_ok_def)
  qed
qed

theorem empty_footprint_never_emitted_witness:
  "get_summary collapsing_env ''demo_scene'' None None None demo_world =
     (Inr (Some demo_period),
      snd (get_summary collapsing_env ''demo_scene'' None None None demo_world)) \<and>
   (\<exists>g. priv_get_footprint collapsing_env (Some demo_period) = Some g \<and> is_empty_geom g) \<and>
   fst (get_footprint_geojson_uncached collapsing_env ''demo_scene'' None None None demo_world)
     = Inr None \<and>
   footprint_cache_ok demo_world \<and>
   fst (get_footprint_geojson demo_env ''demo_scene'' None None None demo_world) =
     Inr (Some (JObj
       [(''type'', JStr ''Feature''),
        (''geometry'', JGeometry demo_footprint),
        (''properties'', JObj
           [(''dataset_count'', JInt 2),
            (''product_name'', JStr ''demo_scene''),
            (''time_spec'', JList [JNull, JNull, JNull])])])) \<and>
   feature_geometry_nonempty (JObj
       [(''type'', JStr ''Feature''),
        (''geometry'', JGeometry demo_footprint),
        (''properties'', JObj
           [(''dataset_count'', JInt 2),
            (''product_name'', JStr ''demo_scene''),
            (''time_spec'', JList [JNull, JNull, JNull])])]) \<and>
   footprint_cache_ok
     (snd (get_footprint_geojson demo_env ''demo_scene'' None None None demo_world))"
proof -
  let ?F = "JObj
       [(''type'', JStr ''Feature''),
        (''geometry'', JGeometry demo_footprint),
        (''properties'', JObj
           [(''dataset_count'', JInt 2),
            (''product_name'', JStr ''demo_scene''),
            (''time_spec'', JList [JNull, JNull, JNull])])]"
  have a: "get_summary collapsing_env ''demo_scene'' None None None demo_world =
     (Inr (Some demo_period),
      snd (get_summary collapsing_env ''demo_scene'' None None None demo_world))"
    by (simp add: prod_eq_iff run_defs collapsing_env_def demo_env_def demo_world_def)
  have b: "\<exists>g. priv_get_footprint collapsing_env (Some demo_period) = Some g \<and> is_empty_geom g"
    by (simp add: priv_get_footprint_def is_empty_geom_def collapsing_env_def demo_env_def
        demo_period_def demo_footprint_def)
  have c: "footprint_cache_ok demo_world"
    by (simp add: footprint_cache_ok_def demo_world_def)
  have dfst: "fst (get_footprint_geojson demo_env ''demo_scene'' None None None demo_world)
               = Inr (Some ?F)"
    by (simp add: get_footprint_geojson_def get_footprint_geojson_uncached_def
        run_defs priv_get_footprint_def is_empty_geom_def json_of_opt_def
        demo_env_def demo_world_def demo_period_def demo_footprint_def)
  then have d: "get_footprint_geojson demo_env ''demo_scene'' None None None demo_world =
     (Inr (Some ?F),
      snd (get_footprint_geojson demo_env ''demo_scene'' None None None demo_world))"
    by (simp add: prod_eq_iff)
  from a b
    empty_footprint_never_emitted [of collapsing_env "''demo_scene''" None None None demo_world demo_period
            "snd (get_summary collapsing_env ''demo_scene'' None None None demo_world)"]
  have absent:
    "fst (get_footprint_geojson_uncached collapsing_env ''demo_scene'' None None None demo_world)
       = Inr None"
    by simp
  from c d
    empty_footprint_never_emitted [of demo_env "''demo_scene''" None None None demo_world _ _ ?F
            "snd (get_footprint_geojson demo_env ''demo_scene'' None None None demo_world)"]
  have emitted: "feature_geometry_nonempty ?F \<and>
    footprint_cache_ok
      (snd (get_footprint_geojson demo_env ''demo_scene'' None None None demo_world))"
    by blast
  from a b absent c dfst emitted show ?thesis by simp
qed

subsection \<open>The time to live of the four cached queries\<close>

lemma memoize_window:
  assumes tab: "\<And>g u. table (update g u) = g (table u)"
    and clock: "\<And>g u. now (update g u) = now u"
    and steady: "\<And>u. now (snd (f u)) = now u"
    and miss: "cache_miss (now w) (table w) key"
    and run: "memoize timeout table update key f w = (Inr v, w1)"
    and kept: "table w2 key = table w1 key"
  shows "now w1 = now w"
    and "now w2 < now w1 + timeout \<Longrightarrow> memoize timeout table update key f' w2 = (Inr v, w2)"
    and "now w1 + timeout \<le> now w2 \<Longrightarrow>
         fst (memoize timeout table update key f' w2) = fst (f' w2)"
proof -
  obtain r u where fu: "f w = (r, u)" by (cases "f w")
  from miss run fu have r: "r = Inr v"
    and w1: "w1 = update (\<lambda>c. c(key \<mapsto> (now u + timeout, v))) u"
    by (auto simp add: memoize_def cache_miss_def split: sum.splits)
  from steady [of w] fu have u: "now u = now w" by simp
  show n: "now w1 = now w" using w1 u clock by simp
  have entry: "table w2 key = Some (now w1 + timeout, v)"
    using kept w1 tab clock by simp
  show "memoize timeout table update key f' w2 = (Inr v, w2)" if "now w2 < now w1 + timeout"
    using that entry by (simp add: memoize_def cache_get_def)
  show "fst (memoize timeout table update key f' w2) = fst (f' w2)"
    if "now w1 + timeout \<le> now w2"
    using that entry by (simp add: memoize_miss cache_miss_def cache_get_def)
qed

lemma get_summary_uncached_now:
  "now (snd (get_summary_uncached E p y m d w)) = now w"
  by (simp add: get_summary_uncached_def called_def split: prod.splits)

lemma get_summary_now: "now (snd (get_summary E p y m d w)) = now w"
  by (simp add: get_summary_def memoize_def get_summary_uncached_def called_def
      split: option.splits prod.splits sum.splits)

lemma get_datasets_geojson_uncached_now:
  "now (snd (get_datasets_geojson_uncached E p y m d l w)) = now w"
  by (simp add: get_datasets_geojson_uncached_def called_def)

lemma get_last_updated_uncached_now:
  "now (snd (get_last_updated_uncached E w)) = now w"
  by (simp add: get_last_updated_uncached_def store_last_updated_def called_def
      split: option.splits sum.splits)

lemma products_with_summaries_now:
  "now (snd (products_with_summaries E ip names w)) = now w"
proof (induction names arbitrary: w)
  case Nil
  then show ?case by simp
next
  case (Cons n ns)
  show ?case
  proof (cases "ip n")
    case None
    then show ?thesis by simp
  next
    case (Some p)
    obtain r w1 where s: "get_summary E n None None None w = (r, w1)"
      by (cases "get_summary E n None None None w")
    then have w1: "now w1 = now w" using get_summary_now [of E n None None None w] by simp
    show ?thesis
    proof (cases r)
      case (Inl e)
      with Some s w1 show ?thesis by simp
    next
      case (Inr v)
      obtain r2 w2 where l: "products_with_summaries E ip ns w1 = (r2, w2)"
        by (cases "products_with_summaries E ip ns w1")
      then have "now w2 = now w1" using Cons.IH [of w1] by simp
      with Some s Inr l w1 show ?thesis by (cases r2) simp_all
    qed
  qed
qed

lemma get_products_with_summaries_uncached_now:
  "now (snd (get_products_with_summaries_uncached E w)) = now w"
proof -
  let ?ip = "map_of (rev (map (\<lambda>p. (dt_name p, p)) (products_get_all E (db w))))"
  let ?w2 = "called ListCompleteProducts (called ProductsGetAll w)"
  let ?names = "store_list_complete_products E (db (called ProductsGetAll w))"
  obtain r w3 where l: "products_with_summaries E ?ip ?names ?w2 = (r, w3)"
    by (cases "products_with_summaries E ?ip ?names ?w2")
  then have "now w3 = now ?w2" using products_with_summaries_now [of E ?ip ?names ?w2] by simp
  then have "now w3 = now w" by (simp add: called_def)
  with l show ?thesis
    by (cases r) (simp_all add: get_products_with_summaries_uncached_def Let_def)
qed

text \<open>
  C9. For \<open>get_summary\<close> and \<open>get_datasets_geojson\<close> (60 seconds),
  \<open>get_last_updated\<close> and \<open>get_products_with_summaries\<close> (120 seconds): after a
  call that computed and returned a value at time \<open>now w\<close>, a call with the same
  arguments in any later world that still holds the entry, made before
  \<open>now w\<close> plus the time to live, returns the same value and leaves the world as it
  is, trace of store calls included, whatever the store has become meanwhile; from
  \<open>now w\<close> plus the time to live on, the call returns what the body computes anew.
\<close>

theorem cached_queries_within_ttl:
  "(cache_miss (now w) (summary_cache w) (product_name, year, month, day) \<and>
    get_summary E product_name year month day w = (Inr summary, w1) \<and>
    summary_cache w2 (product_name, year, month, day)
      = summary_cache w1 (product_name, year, month, day)
    \<longrightarrow> (now w2 < now w + 60
          \<longrightarrow> get_summary E product_name year month day w2 = (Inr summary, w2)) \<and>
         (now w + 60 \<le> now w2
          \<longrightarrow> fst (get_summary E product_name year month day w2)
                = fst (get_summary_uncached E product_name year month day w2))) \<and>
   (cache_miss (now w) (datasets_geojson_cache w) ((product_name, year, month, day), limit) \<and>
    get_datasets_geojson E product_name year month day limit w = (Inr footprints, w1) \<and>
    datasets_geojson_cache w2 ((product_name, year, month, day), limit)
      = datasets_geojson_cache w1 ((product_name, year, month, day), limit)
    \<longrightarrow> (now w2 < now w + 60
          \<longrightarrow> get_datasets_geojson E product_name year month day limit w2
                = (Inr footprints, w2)) \<and>
         (now w + 60 \<le> now w2
          \<longrightarrow> fst (get_datasets_geojson E product_name year month day limit w2)
                = fst (get_datasets_geojson_uncached E product_name year month day limit w2))) \<and>
   (cache_miss (now w) (last_updated_cache w) () \<and>
    get_last_updated E w = (Inr updated, w1) \<and>
    last_updated_cache w2 () = last_updated_cache w1 ()
    \<longrightarrow> (now w2 < now w + 120 \<longrightarrow> get_last_updated E w2 = (Inr updated, w2)) \<and>
         (now w + 120 \<le> now w2
          \<longrightarrow> fst (get_last_updated E w2) = fst (get_last_updated_uncached E w2))) \<and>
   (cache_miss (now w) (products_cache w) () \<and>
    get_products_with_summaries E w = (Inr products, w1) \<and>
    products_cache w2 () = products_cache w1 ()
    \<longrightarrow> (now w2 < now w + 120
          \<longrightarrow> get_products_with_summaries E w2 = (Inr products, w2)) \<and>
         (now w + 120 \<le> now w2
          \<longrightarrow> fst (get_products_with_summaries E w2)
                = fst (get_products_with_summaries_uncached E w2)))"
proof (intro conjI impI; (elim conjE)?)
  assume "cache_miss (now w) (summary_cache w) (product_name, year, month, day)"
    and "get_summary E product_name year month day w = (Inr summary, w1)"
    and "summary_cache w2 (product_name, year, month, day)
      = summary_cache w1 (product_name, year, month, day)"
  note h = this [unfolded get_summary_def]
  have *: "\<And>g u. summary_cache (summary_cache_update g u) = g (summary_cache u)"
    "\<And>g u. now (summary_cache_update g (u :: ('a, 'b) world)) = now u"
    by simp_all
  note m = memoize_window [of summary_cache summary_cache_update, OF * get_summary_uncached_now h]
  show "get_summary E product_name year month day w2 = (Inr summary, w2)"
    if "now w2 < now w + 60"
    using that m(1) m(2) by (simp add: get_summary_def)
  show "fst (get_summary E product_name year month day w2)
                = fst (get_summary_uncached E product_name year month day w2)"
    if "now w + 60 \<le> now w2"
    using that m(1) m(3) by (simp add: get_summary_def)
next
  assume "cache_miss (now w) (datasets_geojson_cache w) ((product_name, year, month, day), limit)"
    and "get_datasets_geojson E product_name year month day limit w = (Inr footprints, w1)"
    and "datasets_geojson_cache w2 ((product_name, year, month, day), limit)
      = datasets_geojson_cache w1 ((product_name, year, month, day), limit)"
  note h = this [unfolded get_datasets_geojson_def]
  have *: "\<And>g u. datasets_geojson_cache (datasets_geojson_cache_update g u)
                   = g (datasets_geojson_cache u)"
    "\<And>g u. now (datasets_geojson_cache_update g (u :: ('a, 'b) world)) = now u"
    by simp_all
  note m = memoize_window [of datasets_geojson_cache datasets_geojson_cache_update,
      OF * get_datasets_geojson_uncached_now h]
  show "get_datasets_geojson E product_name year month day limit w2 = (Inr footprints, w2)"
    if "now w2 < now w + 60"
    using that m(1) m(2) by (simp add: get_datasets_geojson_def)
  show "fst (get_datasets_geojson E product_name year month day limit w2)
                = fst (get_datasets_geojson_uncached E product_name year month day limit w2)"
    if "now w + 60 \<le> now w2"
    using that m(1) m(3) by (simp add: get_datasets_geojson_def)
next
  assume "cache_miss (now w) (last_updated_cache w) ()"
    and "get_last_updated E w = (Inr updated, w1)"
    and "last_updated_cache w2 () = last_updated_cache w1 ()"
  note h = this [unfolded get_last_updated_def]
  have *: "\<And>g u. last_updated_cache (last_updated_cache_update g u) = g (last_updated_cache u)"
    "\<And>g u. now (last_updated_cache_update g (u :: ('a, 'b) world)) = now u"
    by simp_all
  note m = memoize_window [of last_updated_cache last_updated_cache_update,
      OF * get_last_updated_uncached_now h]
  show "get_last_updated E w2 = (Inr updated, w2)" if "now w2 < now w + 120"
    using that m(1) m(2) by (simp add: get_last_updated_def)
  show "fst (get_last_updated E w2) = fst (get_last_updated_uncached E w2)"
    if "now w + 120 \<le> now w2"
    using that m(1) m(3) by (simp add: get_last_updated_def)
next
  assume "cache_miss (now w) (products_cache w) ()"
    and "get_products_with_summaries E w = (Inr products, w1)"
    and "products_cache w2 () = products_cache w1 ()"
  note h = this [unfolded get_products_with_summaries_def]
  have *: "\<And>g u. products_cache (products_cache_update g u) = g (products_cache u)"
    "\<And>g u. now (products_cache_update g (u :: ('a, 'b) world)) = now u"
    by simp_all
  note m = memoize_window [of products_cache products_cache_update,
      OF * get_products_with_summaries_uncached_now h]
  show "get_products_with_summaries E w2 = (Inr products, w2)" if "now w2 < now w + 120"
    using that m(1) m(2) by (simp add: get_products_with_summaries_def)
  show "fst (get_products_with_summaries E w2)
                = fst (get_products_with_summaries_uncached E w2)"
    if "now w + 120 \<le> now w2"
    using that m(1) m(3) by (simp add: get_products_with_summaries_def)
qed

theorem cached_queries_within_ttl_witness:
  "get_summary demo_env ''demo_scene'' None None None
      ((snd (get_summary demo_env ''demo_scene'' None None None demo_world))\<lparr>now := 159, db := 5\<rparr>)
    = (Inr (Some demo_period),
       (snd (get_summary demo_env ''demo_scene'' None None None demo_world))\<lparr>now := 159, db := 5\<rparr>) \<and>
   fst (get_summary demo_env ''demo_scene'' None None None
      ((snd (get_summary demo_env ''demo_scene'' None None None demo_world))\<lparr>now := 160\<rparr>))
    = fst (get_summary_uncached demo_env ''demo_scene'' None None None
      ((snd (get_summary demo_env ''demo_scene'' None None None demo_world))\<lparr>now := 160\<rparr>)) \<and>
   get_datasets_geojson demo_env ''demo_scene'' None None None 500
      ((snd (get_datasets_geojson demo_env ''demo_scene'' None None None 500 demo_world))\<lparr>now := 159\<rparr>)
    = (Inr (JObj [(''type'', JStr ''FeatureCollection''), (''features'', JList [])]),
       (snd (get_datasets_geojson demo_env ''demo_scene'' None None None 500 demo_world))\<lparr>now := 159\<rparr>) \<and>
   get_last_updated demo_env ((snd (get_last_updated demo_env demo_world))\<lparr>now := 219, db := 5\<rparr>)
    = (Inr ''2018-05-01'', (snd (get_last_updated demo_env demo_world))\<lparr>now := 219, db := 5\<rparr>) \<and>
   fst (get_last_updated demo_env ((snd (get_last_updated demo_env demo_world))\<lparr>now := 220, db := 5\<rparr>))
    = Inr ''2018-05-02'' \<and>
   get_products_with_summaries demo_env
      ((snd (get_products_with_summaries demo_env demo_world))\<lparr>now := 219\<rparr>)
    = (Inr [(demo_product, Some demo_period)],
       (snd (get_products_with_summaries demo_env demo_world))\<lparr>now := 219\<rparr>)"
proof -
  let ?s1 = "snd (get_summary demo_env ''demo_scene'' None None None demo_world)"
  let ?d1 = "snd (get_datasets_geojson demo_env ''demo_scene'' None None None 500 demo_world)"
  let ?u1 = "snd (get_last_updated demo_env demo_world)"
  let ?p1 = "snd (get_products_with_summaries demo_env demo_world)"
  have t: "now demo_world = 100" by (simp add: demo_world_def)
  have miss:
    "cache_miss (now demo_world) (summary_cache demo_world) (''demo_scene'', None, None, None)"
    "cache_miss (now demo_world) (datasets_geojson_cache demo_world)
       ((''demo_scene'', None, None, None), 500)"
    "cache_miss (now demo_world) (last_updated_cache demo_world) ()"
    "cache_miss (now demo_world) (products_cache demo_world) ()"
    by (simp_all add: cache_miss_def cache_get_def demo_world_def)
  have s: "get_summary demo_env ''demo_scene'' None None None demo_world
             = (Inr (Some demo_period), ?s1)"
    by (simp add: prod_eq_iff run_defs demo_env_def demo_world_def)
  have d: "get_datasets_geojson demo_env ''demo_scene'' None None None 500 demo_world
             = (Inr (JObj [(''type'', JStr ''FeatureCollection''), (''features'', JList [])]), ?d1)"
    by (simp add: prod_eq_iff get_datasets_geojson_def get_datasets_geojson_uncached_def
        memoize_def cache_get_def demo_env_def demo_world_def)
  have u: "get_last_updated demo_env demo_world = (Inr ''2018-05-01'', ?u1)"
    by (simp add: prod_eq_iff get_last_updated_def get_last_updated_uncached_def
        store_last_updated_def memoize_def cache_get_def demo_env_def demo_world_def)
  have p: "get_products_with_summaries demo_env demo_world
             = (Inr [(demo_product, Some demo_period)], ?p1)"
    by (simp add: prod_eq_iff get_products_with_summaries_def
        get_products_with_summaries_uncached_def run_defs demo_product_def
        demo_env_def demo_world_def)
  have fresh: "fst (get_last_updated_uncached demo_env (?u1\<lparr>now := 220, db := 5\<rparr>))
                 = Inr ''2018-05-02''"
    by (simp add: get_last_updated_def get_last_updated_uncached_def
        store_last_updated_def memoize_def cache_get_def called_def demo_env_def demo_world_def)
  note at_s = cached_queries_within_ttl [where E = demo_env and w = demo_world and product_name = "''demo_scene''"
      and year = None and month = None and day = None
      and summary = "Some demo_period" and ?w1.0 = ?s1]
  note at_d = cached_queries_within_ttl [where E = demo_env and w = demo_world and product_name = "''demo_scene''"
      and year = None and month = None and day = None and limit = 500
      and footprints = "JObj [(''type'', JStr ''FeatureCollection''), (''features'', JList [])]"
      and ?w1.0 = ?d1 and ?w2.0 = "?d1\<lparr>now := 159\<rparr>"]
  note at_u = cached_queries_within_ttl [where E = demo_env and w = demo_world and updated = "''2018-05-01''"
      and ?w1.0 = ?u1]
  note at_p = cached_queries_within_ttl [where E = demo_env and w = demo_world
      and products = "[(demo_product, Some demo_period)]"
      and ?w1.0 = ?p1 and ?w2.0 = "?p1\<lparr>now := 219\<rparr>"]
  have 1: "get_summary demo_env ''demo_scene'' None None None (?s1\<lparr>now := 159, db := 5\<rparr>)
             = (Inr (Some demo_period), ?s1\<lparr>now := 159, db := 5\<rparr>)"
    using at_s [where ?w2.0 = "?s1\<lparr>now := 159, db := 5\<rparr>"] miss(1) s t by simp
  have 2: "fst (get_summary demo_env ''demo_scene'' None None None (?s1\<lparr>now := 160\<rparr>))
             = fst (get_summary_uncached demo_env ''demo_scene'' None None None
                      (?s1\<lparr>now := 160\<rparr>))"
    using at_s [where ?w2.0 = "?s1\<lparr>now := 160\<rparr>"] miss(1) s t by simp
  have 3: "get_datasets_geojson demo_env ''demo_scene'' None None None 500 (?d1\<lparr>now := 159\<rparr>)
             = (Inr (JObj [(''type'', JStr ''FeatureCollection''), (''features'', JList [])]),
                ?d1\<lparr>now := 159\<rparr>)"
    using at_d miss(2) d t by simp
  have 4: "get_last_updated demo_env (?u1\<lparr>now := 219, db := 5\<rparr>)
             = (Inr ''2018-05-01'', ?u1\<lparr>now := 219, db := 5\<rparr>)"
    using at_u [where ?w2.0 = "?u1\<lparr>now := 219, db := 5\<rparr>"] miss(3) u t by simp
  have 5: "fst (get_last_updated demo_env (?u1\<lparr>now := 220, db := 5\<rparr>)) = Inr ''2018-05-02''"
    using at_u [where ?w2.0 = "?u1\<lparr>now := 220, db := 5\<rparr>"] miss(3) u t fresh by simp
  have 6: "get_products_with_summaries demo_env (?p1\<lparr>now := 219\<rparr>)
             = (Inr [(demo_product, Some demo_period)], ?p1\<lparr>now := 219\<rparr>)"
    using at_p miss(4) p t by simp
  from 1 2 3 4 5 6 show ?thesis by blast
qed

end
